theory Spec2Isabelle
  imports Complex_Main "HOL-Library.Sublist"
begin

section \<open>Python strings\<close>

text \<open>
  A Python \<open>str\<close> is modelled as a \<^typ>\<open>string\<close>. The characters that matter to the code
  (newline, braces, the comment markers, the keywords, the language tags) are ASCII.
\<close>

abbreviation bs :: string where "bs \<equiv> [CHR 0x5C]"
abbreviation sq :: string where "sq \<equiv> [CHR 0x27]"
abbreviation dq :: string where "dq \<equiv> [CHR 0x22]"

text \<open>\<open>str.isspace\<close> on one character of the ASCII range: tab to carriage return, the four
  separators 0x1C to 0x1F, and the space.\<close>

definition isspace :: "char \<Rightarrow> bool" where
  "isspace c = (c \<in> set [CHR 0x09, CHR 0x0A, CHR 0x0B, CHR 0x0C, CHR 0x0D,
                              CHR 0x1C, CHR 0x1D, CHR 0x1E, CHR 0x1F, CHR 0x20])"

definition lstrip :: "string \<Rightarrow> string" where
  "lstrip s = dropWhile isspace s"

definition rstrip :: "string \<Rightarrow> string" where
  "rstrip s = rev (dropWhile isspace (rev s))"

definition strip :: "string \<Rightarrow> string" where
  "strip s = rstrip (lstrip s)"


text \<open>\<open>s.split(c)\<close> for a one-character separator: never the empty list.\<close>

fun split_char :: "char \<Rightarrow> string \<Rightarrow> string list" where
  "split_char c [] = [[]]"
| "split_char c (x # xs) =
     (if x = c then [] # split_char c xs
      else (case split_char c xs of
              [] \<Rightarrow> [[x]]
            | l # ls \<Rightarrow> (x # l) # ls))"

text \<open>\<open>sep.join(parts)\<close>.\<close>

fun join :: "string \<Rightarrow> string list \<Rightarrow> string" where
  "join sep [] = []"
| "join sep [p] = p"
| "join sep (p # q # ps) = p @ sep @ join sep (q # ps)"

text \<open>\<open>s.count(sub)\<close>: the occurrences of \<open>sub\<close> in \<open>s\<close>, scanning from the left and
  not overlapping; for the empty \<open>sub\<close> Python answers \<open>len(s) + 1\<close>.\<close>

function str_count :: "string \<Rightarrow> string \<Rightarrow> nat" where
  "str_count s sub =
     (if sub = [] then length s + 1
      else if length s < length sub then 0
      else if take (length sub) s = sub then 1 + str_count (drop (length sub) s) sub
      else str_count (tl s) sub)"
  by pat_completeness auto
termination
proof (relation "measure (\<lambda>(s, sub). length s)")
  show "wf (measure (\<lambda>(s, sub). length s))" by simp
next
  fix s sub :: string
  assume "sub \<noteq> []" and "\<not> length s < length sub"
  then have "0 < length sub \<and> 0 < length s"
    by (cases sub) auto
  then show "((drop (length sub) s, sub), (s, sub)) \<in> measure (\<lambda>(s, sub). length s)"
    by simp
next
  fix s sub :: string
  assume "sub \<noteq> []" and "\<not> length s < length sub"
  then have "0 < length s"
    by (cases sub) auto
  then show "((tl s, sub), (s, sub)) \<in> measure (\<lambda>(s, sub). length s)"
    by simp
qed

declare str_count.simps [simp del]

text \<open>\<open>s.find(c, start)\<close> for a one-character \<open>c\<close>: the first index at or after \<open>start\<close>,
  \<open>None\<close> for Python's \<open>-1\<close>.\<close>

fun find_from :: "nat \<Rightarrow> char \<Rightarrow> string \<Rightarrow> nat option" where
  "find_from i c [] = None"
| "find_from i c (x # xs) = (if x = c then Some i else find_from (Suc i) c xs)"

definition str_find :: "string \<Rightarrow> char \<Rightarrow> nat \<Rightarrow> nat option" where
  "str_find s c start = find_from start c (drop start s)"

text \<open>\<open>str(n)\<close> for a non-negative integer.\<close>

function str_nat :: "nat \<Rightarrow> string" where
  "str_nat n =
     (if n < 10 then [''0123456789'' ! n]
      else str_nat (n div 10) @ [''0123456789'' ! (n mod 10)])"
  by pat_completeness auto
termination
  by (relation "measure (\<lambda>n. n)") auto

declare str_nat.simps [simp del]

text \<open>\<open>s.lower()\<close> on ASCII letters.\<close>

definition lower_char :: "char \<Rightarrow> char" where
  "lower_char c =
     (case map_of (zip ''ABCDEFGHIJKLMNOPQRSTUVWXYZ'' ''abcdefghijklmnopqrstuvwxyz'') c of
        Some l \<Rightarrow> l
      | None \<Rightarrow> c)"

definition lower :: "string \<Rightarrow> string" where
  "lower s = map lower_char s"

text \<open>\<open>enumerate(xs)\<close>.\<close>

definition enumerate_list :: "'a list \<Rightarrow> (nat \<times> 'a) list" where
  "enumerate_list xs = zip [0..<length xs] xs"

section \<open>Regular expressions\<close>

text \<open>
  Python's \<open>re\<close> module is not part of the repository. The engine is a parameter: given
  the \<open>IGNORECASE\<close> flag, a pattern and a text it returns the matches that
  \<open>re.finditer\<close> yields, left to right, each with its start offset and its groups
  (group 0 is the whole match; \<open>None\<close> for a group that did not take part).
\<close>

record re_match =
  m_start :: nat
  m_groups :: "string option list"

type_synonym regex = "bool \<Rightarrow> string \<Rightarrow> string \<Rightarrow> re_match list"

definition group :: "re_match \<Rightarrow> nat \<Rightarrow> string option" where
  "group m k = (if k < length (m_groups m) then m_groups m ! k else None)"

text \<open>A group that takes part in every match of its pattern, read as a string.\<close>

definition group_str :: "re_match \<Rightarrow> nat \<Rightarrow> string" where
  "group_str m k = (case group m k of Some s \<Rightarrow> s | None \<Rightarrow> [])"

text \<open>\<open>re.search(pattern, line, re.IGNORECASE)\<close> used as a condition.\<close>

definition re_search_i :: "regex \<Rightarrow> string \<Rightarrow> string \<Rightarrow> bool" where
  "re_search_i re pattern line = (re True pattern line \<noteq> [])"

section \<open>Defect classifier (defect_classifier.py)\<close>

record FlaggedSection =
  fs_line :: nat
  fs_code :: string
  fs_issue :: string
  fs_severity :: string
  fs_pattern :: string

record DefectPrediction =
  risk_score :: rat
  risk_level :: string
  flagged_sections :: "FlaggedSection list"
  confidence :: rat
  issues_detected :: "string list"

text \<open>
  The state of a \<open>DefectClassifier\<close> after construction: the \<open>_is_trained\<close> flag, and the
  fitted vectorizer and forest (scikit-learn, outside the repository) as the function
  from a code text to the class probabilities of \<open>predict_proba(...)[0]\<close>, \<open>None\<close> when
  \<open>transform\<close> or \<open>predict_proba\<close> raises.
\<close>

record DefectClassifier =
  is_trained :: bool
  predict_proba :: "string \<Rightarrow> rat list option"

type_synonym Rule = "string \<times> string \<times> string"

definition anti_patterns_python :: "Rule list" where
  \<open>anti_patterns_python =
    [(''except'' @ bs @ ''s*:'',
      ''Bare except clause catches all exceptions'', ''error''),
     (''eval'' @ bs @ ''s*'' @ bs @ ''('',
      ''Use of eval() is a security risk'', ''security''),
     (''exec'' @ bs @ ''s*'' @ bs @ ''('',
      ''Use of exec() is a security risk'', ''security''),
     (''from'' @ bs @ ''s+'' @ bs @ ''w+'' @ bs @ ''s+import'' @ bs @ ''s+'' @ bs @ ''*'',
      ''Wildcard import pollutes namespace'', ''warning''),
     (''global'' @ bs @ ''s+'' @ bs @ ''w+'',
      ''Global variable usage'', ''warning''),
     (''print'' @ bs @ ''s*'' @ bs @ ''(.*'' @ bs @ '')'' @ bs @ ''s*$'',
      ''Debug print statement'', ''info''),
     (''#'' @ bs @ ''s*TODO'',
      ''TODO comment found'', ''info''),
     (''#'' @ bs @ ''s*FIXME'',
      ''FIXME comment found'', ''warning''),
     (''#'' @ bs @ ''s*HACK'',
      ''HACK comment found'', ''warning''),
     (''password'' @ bs @ ''s*='' @ bs @ ''s*['' @ sq @ bs @ dq @ '']'',
      ''Hardcoded password detected'', ''security''),
     (''api[_-]?key'' @ bs @ ''s*='' @ bs @ ''s*['' @ sq @ bs @ dq @ '']'',
      ''Hardcoded API key detected'', ''security''),
     (''sleep'' @ bs @ ''s*'' @ bs @ ''('' @ bs @ ''s*'' @ bs @ ''d+'' @ bs @ ''s*'' @ bs @ '')'',
      ''Sleep call may indicate polling anti-pattern'', ''warning''),
     (''except'' @ bs @ ''s+Exception'' @ bs @ ''s*:'',
      ''Catching generic Exception'', ''warning''),
     (bs @ ''.format'' @ bs @ ''(.*'' @ bs @ '')'' @ bs @ ''s*$'',
      ''Consider using f-strings for formatting'', ''suggestion''),
     (''^'' @ bs @ ''s*pass'' @ bs @ ''s*$'',
      ''Empty block with pass'', ''info''),
     (''assert'' @ bs @ ''s+'',
      ''Assert statement (disabled in optimized mode)'', ''warning''),
     (''os'' @ bs @ ''.system'' @ bs @ ''s*'' @ bs @ ''('',
      ''os.system() is vulnerable to command injection'', ''security'')]\<close>

definition anti_patterns_javascript :: "Rule list" where
  \<open>anti_patterns_javascript =
    [(bs @ ''bvar'' @ bs @ ''s+'',
      ''Use let/const instead of var'', ''warning''),
     (''eval'' @ bs @ ''s*'' @ bs @ ''('',
      ''Use of eval() is a security risk'', ''security''),
     (''innerHTML'' @ bs @ ''s*='',
      ''innerHTML can lead to XSS vulnerabilities'', ''security''),
     (''document'' @ bs @ ''.write'' @ bs @ ''s*'' @ bs @ ''('',
      ''document.write() is deprecated'', ''warning''),
     (''=='' @ bs @ ''s*null|null'' @ bs @ ''s*=='',
      ''Use === for strict equality'', ''warning''),
     (''!='' @ bs @ ''s*null|null'' @ bs @ ''s*!='',
      ''Use !== for strict inequality'', ''warning''),
     (''console'' @ bs @ ''.log'' @ bs @ ''s*'' @ bs @ ''('',
      ''Console log statement (debug)'', ''info''),
     (''debugger'',
      ''Debugger statement found'', ''warning''),
     (''alert'' @ bs @ ''s*'' @ bs @ ''('',
      ''Alert statement (debug/bad UX)'', ''warning''),
     (bs @ ''.then'' @ bs @ ''s*'' @ bs @ ''(.*'' @ bs @ ''.then'' @ bs @ ''s*'' @ bs @ ''('',
      ''Promise chain - consider async/await'', ''suggestion''),
     (''callback.*callback'',
      ''Nested callbacks - consider async/await'', ''warning''),
     (''new'' @ bs @ ''s+Function'' @ bs @ ''s*'' @ bs @ ''('',
      ''Dynamic function creation is risky'', ''security''),
     (''setTimeout'' @ bs @ ''s*'' @ bs @ ''(['' @ sq @ bs @ dq @ '']'',
      ''String in setTimeout is like eval'', ''security'')]\<close>

definition anti_patterns_java :: "Rule list" where
  \<open>anti_patterns_java =
    [(''catch'' @ bs @ ''s*'' @ bs @ ''('' @ bs @ ''s*Exception'' @ bs @ ''s+'',
      ''Catching generic Exception'', ''warning''),
     (''catch'' @ bs @ ''s*'' @ bs @ ''('' @ bs @ ''s*Throwable'' @ bs @ ''s+'',
      ''Catching Throwable is too broad'', ''error''),
     (''e'' @ bs @ ''.printStackTrace'' @ bs @ ''s*'' @ bs @ ''('' @ bs @ ''s*'' @ bs @ '')'',
      ''printStackTrace() in production code'', ''warning''),
     (''System'' @ bs @ ''.out'' @ bs @ ''.print'',
      ''System.out usage (use logger)'', ''warning''),
     (''public'' @ bs @ ''s+'' @ bs @ ''w+'' @ bs @ ''s+'' @ bs @ ''w+'' @ bs @ ''s*;'',
      ''Public field without getter/setter'', ''warning''),
     (''new'' @ bs @ ''s+String'' @ bs @ ''s*'' @ bs @ ''('' @ bs @ ''s*['' @ sq @ bs @ dq @ '']'',
      ''Unnecessary String object creation'', ''suggestion''),
     (''=='' @ bs @ ''s*'' @ bs @ dq @ ''|'' @ bs @ dq @ bs @ ''s*=='',
      ''String comparison with == instead of equals()'', ''error''),
     (bs @ ''.equals'' @ bs @ ''s*'' @ bs @ ''('' @ bs @ ''s*null'' @ bs @ ''s*'' @ bs @ '')'',
      ''null.equals() will throw NPE'', ''error''),
     (''synchronized'' @ bs @ ''s*'' @ bs @ ''('' @ bs @ ''s*this'' @ bs @ ''s*'' @ bs @ '')'',
      ''Synchronizing on '' @ sq @ ''this'' @ sq @ '' is risky'', ''warning''),
     (''Thread'' @ bs @ ''.sleep'' @ bs @ ''s*'' @ bs @ ''('',
      ''Thread.sleep() in production code'', ''warning''),
     (''//'' @ bs @ ''s*TODO'',
      ''TODO comment found'', ''info''),
     (''//'' @ bs @ ''s*FIXME'',
      ''FIXME comment found'', ''warning'')]\<close>

definition anti_patterns_general :: "Rule list" where
  \<open>anti_patterns_general =
    [(''password|passwd|pwd'',
      ''Potential password handling'', ''security''),
     (''secret|api[_-]?key|token'',
      ''Potential secret/token handling'', ''security''),
     (''TODO|FIXME|HACK|XXX'',
      ''Unfinished code marker'', ''warning''),
     (''[A-Za-z]+'' @ bs @ ''d{3,}'',
      ''Magic number in identifier'', ''info'')]\<close>

text \<open>\<open>self.anti_patterns.get(language, [])\<close>.\<close>

definition anti_patterns :: "(string \<times> Rule list) list" where
  "anti_patterns =
     [(''python'', anti_patterns_python),
      (''javascript'', anti_patterns_javascript),
      (''java'', anti_patterns_java),
      (''general'', anti_patterns_general)]"

definition dict_get :: "('k \<times> 'v) list \<Rightarrow> 'k \<Rightarrow> 'v \<Rightarrow> 'v" where
  "dict_get d k dflt = (case map_of d k of Some v \<Rightarrow> v | None \<Rightarrow> dflt)"

definition detect_code_smells :: "regex \<Rightarrow> string list \<Rightarrow> string list" where
  "detect_code_smells re lines =
     concat (map (\<lambda>(i, line).
        if length line > 120
        then [''Line '' @ str_nat (i + 1) @ '': Line too long (> 120 chars) (''
                @ str_nat (length line) @ '' chars)'']
        else []) (enumerate_list lines))
     @ concat (map (\<lambda>(i, line).
        let indent = length line - length (lstrip line);
            nesting = indent div 4
        in if nesting > 4
           then [''Line '' @ str_nat (i + 1) @ '': Deep nesting level (> 4) (level ''
                   @ str_nat nesting @ '')'']
           else []) (enumerate_list lines))
     @ concat (map (\<lambda>(i, line).
        let operators = length (re True (''(and|or|'' @ bs @ ''&'' @ bs @ ''&|'' @ bs @ ''|'' @ bs @ ''|)'') line)
        in if operators > 3
           then [''Line '' @ str_nat (i + 1) @ '': Complex boolean condition (> 3 operators)'']
           else []) (enumerate_list lines))"

definition ml_classify :: "DefectClassifier \<Rightarrow> string \<Rightarrow> rat" where
  "ml_classify clf code =
     (if \<not> is_trained clf then 5 / 10
      else (case predict_proba clf code of
              None \<Rightarrow> 5 / 10
            | Some proba \<Rightarrow> if 1 < length proba then proba ! 1 else 5 / 10))"

definition severity_weights :: "(string \<times> rat) list" where
  "severity_weights =
     [(''error'', 1), (''security'', 9 / 10), (''warning'', 5 / 10),
      (''info'', 2 / 10), (''suggestion'', 1 / 10)]"

text \<open>
  Python's \<open>round(x, 3)\<close> on an exact value: to the nearest multiple of 1/1000, a tie
  going to the even one. The floats of the source are modelled as exact rationals.
\<close>

definition round_half_even :: "rat \<Rightarrow> int" where
  "round_half_even x =
     (let f = \<lfloor>x\<rfloor>; d = x - of_int f
      in if d < 1 / 2 then f
         else if 1 / 2 < d then f + 1
         else if even f then f else f + 1)"

definition py_round3 :: "rat \<Rightarrow> rat" where
  "py_round3 x = of_int (round_half_even (x * 1000)) / 1000"

text \<open>Lines 262 to 274 of \<open>analyze\<close>: the pattern score and the clamped risk score.\<close>

definition pattern_score :: "FlaggedSection list \<Rightarrow> rat" where
  "pattern_score flagged =
     min 1 (foldl (\<lambda>acc section. acc + dict_get severity_weights (fs_severity section) (2 / 10))
              0 flagged / 5)"

definition combined_score :: "FlaggedSection list \<Rightarrow> rat \<Rightarrow> rat" where
  "combined_score flagged ml_score =
     min 1 (max 0 (4 / 10 * ml_score + 6 / 10 * pattern_score flagged))"

text \<open>Lines 262 to 290 of \<open>analyze\<close>: from the flagged sections, the issues, the classifier's
  score and the trained flag to the prediction.\<close>

definition fuse :: "FlaggedSection list \<Rightarrow> string list \<Rightarrow> rat \<Rightarrow> bool \<Rightarrow> DefectPrediction" where
  "fuse flagged issues ml_score trained =
     (let risk = combined_score flagged ml_score;
          level = (if 7 / 10 \<le> risk then ''high''
                   else if 4 / 10 \<le> risk then ''medium''
                   else ''low'')
      in \<lparr>risk_score = py_round3 risk,
          risk_level = level,
          flagged_sections = flagged,
          confidence = (if trained then 8 / 10 else 5 / 10),
          issues_detected = issues\<rparr>)"

definition scan :: "regex \<Rightarrow> Rule list \<Rightarrow> string list \<Rightarrow> FlaggedSection list" where
  "scan re patterns lines =
     concat (map (\<lambda>(pattern, message, severity).
        concat (map (\<lambda>(i, line).
           if re_search_i re pattern line
           then [\<lparr>fs_line = i + 1, fs_code = strip line, fs_issue = message,
                   fs_severity = severity, fs_pattern = pattern\<rparr>]
           else []) (enumerate_list lines))) patterns)"

definition analyze :: "regex \<Rightarrow> DefectClassifier \<Rightarrow> string \<Rightarrow> string \<Rightarrow> DefectPrediction" where
  "analyze re clf code language =
     (let lines = split_char CHR 0x0A code;
          patterns = dict_get anti_patterns language [] @ dict_get anti_patterns ''general'' [];
          flagged = scan re patterns lines;
          issues = map (\<lambda>s. ''Line '' @ str_nat (fs_line s) @ '': '' @ fs_issue s) flagged
                   @ detect_code_smells re lines;
          ml_score = ml_classify clf code
      in fuse flagged issues ml_score (is_trained clf))"

section \<open>Python syntax trees (the \<open>ast\<close> module)\<close>

text \<open>
  The tree that \<open>ast.parse\<close> returns, with the node classes the parser service tests for
  and the fields it reads. \<open>BoolOp\<close> carries its operator and its operands, of which the
  grammar gives at least two. \<open>OtherExpr\<close> stands for a node of any other class below a
  statement (a call, a comparison, a lambda, a comprehension, an operator or context
  leaf, ...) with its child nodes; \<open>OtherStmt\<close> for a statement of any other class
  (\<open>Return\<close>, \<open>Expr\<close>, \<open>With\<close>, \<open>AsyncFor\<close>, \<open>Match\<close>, ...) with the expressions and
  statements below it.
\<close>

datatype boolop = And | Or

datatype expr =
    BoolOp boolop expr expr "expr list"
  | Name string
  | OtherExpr "expr list"

record arg =
  arg_name :: string
  annotation :: "expr option"

record arguments =
  posonlyargs :: "arg list"
  args :: "arg list"
  vararg :: "arg option"
  kwonlyargs :: "arg list"
  kw_defaults :: "expr option list"
  kwarg :: "arg option"
  defaults :: "expr list"

text \<open>The fields of a \<open>FunctionDef\<close> and of a \<open>ClassDef\<close> other than the body.\<close>

record funcdef =
  f_name :: string
  f_args :: arguments
  f_decorator_list :: "expr list"
  f_returns :: "expr option"
  f_lineno :: nat
  f_end_lineno :: nat

record classdef =
  c_name :: string
  c_bases :: "expr list"
  c_keywords :: "expr list"
  c_decorator_list :: "expr list"
  c_lineno :: nat
  c_end_lineno :: nat

text \<open>
  \<open>Assign targets value lineno\<close>, \<open>AnnAssign target annotation value lineno\<close>,
  \<open>Import names\<close>, \<open>ImportFrom modname names\<close>, \<open>If_stmt test body orelse\<close> (the class
  \<open>ast.If\<close>), \<open>While test body orelse\<close>, \<open>For target iter body orelse\<close> and
  \<open>Try body handlers orelse finalbody\<close>, a handler being the type and the body of an
  \<open>ExceptHandler\<close>.
\<close>

datatype stmt =
    FunctionDef funcdef "stmt list"
  | AsyncFunctionDef funcdef "stmt list"
  | ClassDef classdef "stmt list"
  | Assign "expr list" expr nat
  | AnnAssign expr expr "expr option" nat
  | Import "string list"
  | ImportFrom "string option" "string list"
  | If_stmt expr "stmt list" "stmt list"
  | While expr "stmt list" "stmt list"
  | For expr expr "stmt list" "stmt list"
  | Try "stmt list" "(expr option \<times> stmt list) list" "stmt list" "stmt list"
  | OtherStmt "expr list" "stmt list"

text \<open>A node as \<open>ast.walk\<close> yields it.\<close>

datatype node =
    Module "stmt list"
  | Stmt stmt
  | ExceptHandler "expr option" "stmt list"
  | Expr expr
  | Boolop boolop
  | Arguments arguments
  | Arg arg
  | Alias string

definition opt_list :: "'a option \<Rightarrow> 'a list" where
  "opt_list x = (case x of None \<Rightarrow> [] | Some v \<Rightarrow> [v])"

text \<open>\<open>ast.iter_child_nodes\<close>: the child nodes in the order of the class's fields. The
  context leaf of a \<open>Name\<close> is an \<open>OtherExpr\<close> without children.\<close>

fun iter_child_nodes :: "node \<Rightarrow> node list" where
  "iter_child_nodes (Module body) = map Stmt body"
| "iter_child_nodes (Stmt (FunctionDef h body)) =
     Arguments (f_args h) # map Stmt body @ map Expr (f_decorator_list h)
       @ map Expr (opt_list (f_returns h))"
| "iter_child_nodes (Stmt (AsyncFunctionDef h body)) =
     Arguments (f_args h) # map Stmt body @ map Expr (f_decorator_list h)
       @ map Expr (opt_list (f_returns h))"
| "iter_child_nodes (Stmt (ClassDef h body)) =
     map Expr (c_bases h) @ map Expr (c_keywords h) @ map Stmt body
       @ map Expr (c_decorator_list h)"
| "iter_child_nodes (Stmt (Assign targets v l)) = map Expr targets @ [Expr v]"
| "iter_child_nodes (Stmt (AnnAssign target ann v l)) =
     Expr target # Expr ann # map Expr (opt_list v)"
| "iter_child_nodes (Stmt (Import names)) = map Alias names"
| "iter_child_nodes (Stmt (ImportFrom modname names)) = map Alias names"
| "iter_child_nodes (Stmt (If_stmt test body orelse)) =
     Expr test # map Stmt body @ map Stmt orelse"
| "iter_child_nodes (Stmt (While test body orelse)) =
     Expr test # map Stmt body @ map Stmt orelse"
| "iter_child_nodes (Stmt (For target iter body orelse)) =
     Expr target # Expr iter # map Stmt body @ map Stmt orelse"
| "iter_child_nodes (Stmt (Try body handlers orelse finalbody)) =
     map Stmt body @ map (\<lambda>(t, b). ExceptHandler t b) handlers @ map Stmt orelse
       @ map Stmt finalbody"
| "iter_child_nodes (Stmt (OtherStmt es ss)) = map Expr es @ map Stmt ss"
| "iter_child_nodes (ExceptHandler t body) = map Expr (opt_list t) @ map Stmt body"
| "iter_child_nodes (Expr (BoolOp op a b rest)) = Boolop op # map Expr (a # b # rest)"
| "iter_child_nodes (Expr (Name x)) = [Expr (OtherExpr [])]"
| "iter_child_nodes (Expr (OtherExpr cs)) = map Expr cs"
| "iter_child_nodes (Boolop op) = []"
| "iter_child_nodes (Arguments a) =
     map Arg (posonlyargs a) @ map Arg (args a) @ map Arg (opt_list (vararg a))
       @ map Arg (kwonlyargs a) @ map Expr (concat (map opt_list (kw_defaults a)))
       @ map Arg (opt_list (kwarg a)) @ map Expr (defaults a)"
| "iter_child_nodes (Arg a) = map Expr (opt_list (annotation a))"
| "iter_child_nodes (Alias x) = []"

text \<open>The nodes below and including a node, parents first: the measure under which the
  queue of \<open>ast.walk\<close> empties.\<close>

fun nodes_expr :: "expr \<Rightarrow> node list" where
  "nodes_expr (BoolOp op a b rest) =
     Expr (BoolOp op a b rest) # Boolop op # nodes_expr a @ nodes_expr b
       @ concat (map nodes_expr rest)"
| "nodes_expr (Name x) = [Expr (Name x), Expr (OtherExpr [])]"
| "nodes_expr (OtherExpr cs) = Expr (OtherExpr cs) # concat (map nodes_expr cs)"

definition nodes_exprs :: "expr list \<Rightarrow> node list" where
  "nodes_exprs es = concat (map nodes_expr es)"

definition nodes_arg :: "arg \<Rightarrow> node list" where
  "nodes_arg a = Arg a # nodes_exprs (opt_list (annotation a))"

definition nodes_args :: "arg list \<Rightarrow> node list" where
  "nodes_args as = concat (map nodes_arg as)"

definition nodes_arguments :: "arguments \<Rightarrow> node list" where
  "nodes_arguments a =
     Arguments a # nodes_args (posonlyargs a) @ nodes_args (args a)
       @ nodes_args (opt_list (vararg a)) @ nodes_args (kwonlyargs a)
       @ nodes_exprs (concat (map opt_list (kw_defaults a)))
       @ nodes_args (opt_list (kwarg a)) @ nodes_exprs (defaults a)"

fun nodes_stmt :: "stmt \<Rightarrow> node list" where
  "nodes_stmt (FunctionDef h body) =
     Stmt (FunctionDef h body) # nodes_arguments (f_args h) @ concat (map nodes_stmt body)
       @ nodes_exprs (f_decorator_list h) @ nodes_exprs (opt_list (f_returns h))"
| "nodes_stmt (AsyncFunctionDef h body) =
     Stmt (AsyncFunctionDef h body) # nodes_arguments (f_args h)
       @ concat (map nodes_stmt body)
       @ nodes_exprs (f_decorator_list h) @ nodes_exprs (opt_list (f_returns h))"
| "nodes_stmt (ClassDef h body) =
     Stmt (ClassDef h body) # nodes_exprs (c_bases h) @ nodes_exprs (c_keywords h)
       @ concat (map nodes_stmt body) @ nodes_exprs (c_decorator_list h)"
| "nodes_stmt (Assign targets v l) =
     Stmt (Assign targets v l) # nodes_exprs targets @ nodes_expr v"
| "nodes_stmt (AnnAssign target ann v l) =
     Stmt (AnnAssign target ann v l) # nodes_expr target @ nodes_expr ann
       @ nodes_exprs (opt_list v)"
| "nodes_stmt (Import names) = Stmt (Import names) # map Alias names"
| "nodes_stmt (ImportFrom modname names) = Stmt (ImportFrom modname names) # map Alias names"
| "nodes_stmt (If_stmt test body orelse) =
     Stmt (If_stmt test body orelse) # nodes_expr test @ concat (map nodes_stmt body)
       @ concat (map nodes_stmt orelse)"
| "nodes_stmt (While test body orelse) =
     Stmt (While test body orelse) # nodes_expr test @ concat (map nodes_stmt body)
       @ concat (map nodes_stmt orelse)"
| "nodes_stmt (For target iter body orelse) =
     Stmt (For target iter body orelse) # nodes_expr target @ nodes_expr iter
       @ concat (map nodes_stmt body) @ concat (map nodes_stmt orelse)"
| "nodes_stmt (Try body handlers orelse finalbody) =
     Stmt (Try body handlers orelse finalbody) # concat (map nodes_stmt body)
       @ concat (map (\<lambda>(t, b). ExceptHandler t b # nodes_exprs (opt_list t)
                                   @ concat (map nodes_stmt b)) handlers)
       @ concat (map nodes_stmt orelse) @ concat (map nodes_stmt finalbody)"
| "nodes_stmt (OtherStmt es ss) =
     Stmt (OtherStmt es ss) # nodes_exprs es @ concat (map nodes_stmt ss)"

definition nodes_stmts :: "stmt list \<Rightarrow> node list" where
  "nodes_stmts ss = concat (map nodes_stmt ss)"

fun nodes_of :: "node \<Rightarrow> node list" where
  "nodes_of (Module body) = Module body # nodes_stmts body"
| "nodes_of (Stmt s) = nodes_stmt s"
| "nodes_of (ExceptHandler t b) = ExceptHandler t b # nodes_exprs (opt_list t) @ nodes_stmts b"
| "nodes_of (Expr e) = nodes_expr e"
| "nodes_of (Boolop op) = [Boolop op]"
| "nodes_of (Arguments a) = nodes_arguments a"
| "nodes_of (Arg a) = nodes_arg a"
| "nodes_of (Alias x) = [Alias x]"

definition nodes_list :: "node list \<Rightarrow> node list" where
  "nodes_list ns = concat (map nodes_of ns)"

lemma nodes_exprs_simps:
  "nodes_exprs [] = []"
  "nodes_exprs (e # es) = nodes_expr e @ nodes_exprs es"
  "nodes_exprs (es @ es') = nodes_exprs es @ nodes_exprs es'"
  by (simp_all add: nodes_exprs_def)

lemma nodes_args_simps:
  "nodes_args [] = []"
  "nodes_args (a # as) = nodes_arg a @ nodes_args as"
  "nodes_args (as @ as') = nodes_args as @ nodes_args as'"
  by (simp_all add: nodes_args_def)

lemma nodes_stmts_simps:
  "nodes_stmts [] = []"
  "nodes_stmts (s # ss) = nodes_stmt s @ nodes_stmts ss"
  "nodes_stmts (ss @ ss') = nodes_stmts ss @ nodes_stmts ss'"
  by (simp_all add: nodes_stmts_def)

lemma nodes_list_simps:
  "nodes_list [] = []"
  "nodes_list (n # ns) = nodes_of n @ nodes_list ns"
  "nodes_list (ns @ ns') = nodes_list ns @ nodes_list ns'"
  by (simp_all add: nodes_list_def)

lemma nodes_list_Expr: "nodes_list (map Expr es) = nodes_exprs es"
  by (induction es) (simp_all add: nodes_list_simps nodes_exprs_simps)

lemma nodes_list_Stmt: "nodes_list (map Stmt ss) = nodes_stmts ss"
  by (induction ss) (simp_all add: nodes_list_simps nodes_stmts_simps)

lemma nodes_list_Arg: "nodes_list (map Arg as) = nodes_args as"
  by (induction as) (simp_all add: nodes_list_simps nodes_args_simps)

lemma nodes_list_Alias: "nodes_list (map Alias xs) = map Alias xs"
  by (induction xs) (simp_all add: nodes_list_simps)

lemma nodes_list_handlers:
  "nodes_list (map (\<lambda>(t, b). ExceptHandler t b) hs)
   = concat (map (\<lambda>(t, b). ExceptHandler t b # nodes_exprs (opt_list t)
                               @ concat (map nodes_stmt b)) hs)"
  by (induction hs) (auto simp: nodes_list_simps nodes_stmts_def)

lemma nodes_of_unfold: "nodes_of n = n # nodes_list (iter_child_nodes n)"
proof (cases n)
  case (Stmt s)
  then show ?thesis
    by (cases s)
       (simp_all add: nodes_list_simps nodes_list_Expr nodes_list_Stmt nodes_list_Alias
          nodes_list_handlers nodes_stmts_def [symmetric])
next
  case (Expr e)
  then show ?thesis
    by (cases e)
       (simp_all add: nodes_list_simps nodes_list_Expr nodes_exprs_simps
          nodes_exprs_def [symmetric])
next
  case (Arguments a)
  then show ?thesis
    by (simp add: nodes_arguments_def nodes_list_simps nodes_list_Expr nodes_list_Arg)
next
  case (Arg a)
  then show ?thesis
    by (simp add: nodes_arg_def nodes_list_Expr)
qed (simp_all add: nodes_list_simps nodes_list_Expr nodes_list_Stmt)

text \<open>\<open>ast.walk\<close>: a queue that starts with the root; the first node leaves it, its children
  join at the end, and the node is yielded.\<close>

function walk_queue :: "node list \<Rightarrow> node list" where
  "walk_queue [] = []"
| "walk_queue (n # todo) = n # walk_queue (todo @ iter_child_nodes n)"
  by pat_completeness auto
termination
  by (relation "measure (\<lambda>todo. length (nodes_list todo))")
     (simp_all add: nodes_list_simps nodes_of_unfold)

definition walk :: "node \<Rightarrow> node list" where
  "walk n = walk_queue [n]"

section \<open>Parser service (code_parser.py)\<close>

text \<open>
  The records of the service. A field \<open>x\<close> of \<open>FunctionInfo\<close>, \<open>ClassInfo\<close> and
  \<open>ParseResult\<close> is \<open>fi_x\<close>, \<open>ci_x\<close> and \<open>pr_x\<close>; the dictionaries of a parameter, an
  attribute and a global variable are records too. Line numbers are natural numbers and
  the complexity score, \<open>min(100, ...)\<close> of an integer or \<open>0.0\<close>, is an integer.
\<close>

record Param =
  p_name :: string
  p_type :: "string option"
  p_default :: "string option"

record FunctionInfo =
  fi_name :: string
  fi_start_line :: nat
  fi_end_line :: nat
  fi_signature :: string
  fi_parameters :: "Param list"
  fi_return_type :: "string option"
  fi_body :: string
  fi_decorators :: "string list"
  fi_docstring :: "string option"
  fi_is_async :: bool
  fi_is_method :: bool
  fi_class_name :: "string option"

record Attribute =
  at_name :: string
  at_type :: "string option"
  at_line :: nat

record ClassInfo =
  ci_name :: string
  ci_start_line :: nat
  ci_end_line :: nat
  ci_bases :: "string list"
  ci_methods :: "FunctionInfo list"
  ci_attributes :: "Attribute list"
  ci_docstring :: "string option"
  ci_decorators :: "string list"

record GlobalVar =
  gv_name :: string
  gv_line :: nat
  gv_value :: string

record ParseResult =
  pr_language :: string
  pr_functions :: "FunctionInfo list"
  pr_classes :: "ClassInfo list"
  pr_imports :: "string list"
  pr_global_variables :: "GlobalVar list"
  pr_errors :: "string list"
  pr_complexity_score :: int

text \<open>
  The exceptions that reach the handlers of \<open>_parse_python\<close>: the \<open>SyntaxError\<close> of
  \<open>ast.parse\<close> with its \<open>lineno\<close> and \<open>msg\<close>, the \<open>IndexError\<close> of a list index out of
  range, and any other exception with its text.
\<close>

datatype py_exception =
    SyntaxError "nat option" string
  | IndexError
  | OtherException string

definition exception_str :: "py_exception \<Rightarrow> string" where
  "exception_str e =
     (case e of
        SyntaxError l msg \<Rightarrow> msg
      | IndexError \<Rightarrow> ''list index out of range''
      | OtherException msg \<Rightarrow> msg)"

text \<open>
  The \<open>ast\<close> module is outside the repository: \<open>ast.parse\<close>, \<open>ast.unparse\<close> (present,
  so \<open>hasattr(ast, 'unparse')\<close> holds) and \<open>ast.get_docstring\<close>, which reads the body of
  its node, are parameters.
\<close>

record ast_lib =
  ast_parse :: "string \<Rightarrow> py_exception + stmt list"
  unparse :: "expr \<Rightarrow> string"
  get_docstring :: "stmt list \<Rightarrow> string option"

text \<open>The truth value of an optional string: \<open>None\<close> and the empty string are false.\<close>

definition truthy :: "string option \<Rightarrow> bool" where
  "truthy x = (case x of None \<Rightarrow> False | Some s \<Rightarrow> s \<noteq> [])"

definition opt_str :: "string option \<Rightarrow> string" where
  "opt_str x = (case x of None \<Rightarrow> [] | Some s \<Rightarrow> s)"

text \<open>The position \<open>xs[i]\<close> reads in a list of length \<open>n\<close>: a negative index counts from
  the end, \<open>None\<close> where Python raises \<open>IndexError\<close>.\<close>

definition py_index :: "int \<Rightarrow> nat \<Rightarrow> nat option" where
  "py_index i n =
     (if 0 \<le> i \<and> i < int n then Some (nat i)
      else if - int n \<le> i \<and> i < 0 then Some (nat (i + int n))
      else None)"

text \<open>The slice \<open>xs[a:b]\<close>.\<close>

definition py_slice :: "'a list \<Rightarrow> int \<Rightarrow> int \<Rightarrow> 'a list" where
  "py_slice xs a b =
     (let n = int (length xs);
          a' = (if a < 0 then max 0 (a + n) else min a n);
          b' = (if b < 0 then max 0 (b + n) else min b n)
      in take (nat (b' - a')) (drop (nat a') xs))"

text \<open>The loop over \<open>enumerate(defaults)\<close> in \<open>_extract_python_function\<close>.\<close>

fun set_defaults ::
  "(expr \<Rightarrow> string) \<Rightarrow> int \<Rightarrow> (nat \<times> expr) list \<Rightarrow> Param list \<Rightarrow> py_exception + Param list"
where
  "set_defaults unp offset [] parameters = Inr parameters"
| "set_defaults unp offset ((i, d) # rest) parameters =
     (case py_index (offset + int i) (length parameters) of
        None \<Rightarrow> Inl IndexError
      | Some k \<Rightarrow>
          set_defaults unp offset rest
            (parameters[k := (parameters ! k)\<lparr>p_default := Some (unp d)\<rparr>]))"

definition param_str :: "Param \<Rightarrow> string" where
  "param_str p =
     p_name p
       @ (if truthy (p_type p) then '': '' @ opt_str (p_type p) else [])
       @ (if truthy (p_default p) then '' = '' @ opt_str (p_default p) else [])"

text \<open>\<open>_extract_python_function(node, lines, class_name)\<close>; \<open>is_async\<close> says whether the
  node is an \<open>AsyncFunctionDef\<close>, \<open>h\<close> and \<open>fbody\<close> are its fields.\<close>

definition extract_python_function ::
  "ast_lib \<Rightarrow> bool \<Rightarrow> funcdef \<Rightarrow> stmt list \<Rightarrow> string list \<Rightarrow> string option
     \<Rightarrow> py_exception + FunctionInfo"
where
  "extract_python_function lib is_async h fbody lines cname =
     (let parameters0 =
            map (\<lambda>a. \<lparr>p_name = arg_name a,
                       p_type = map_option (unparse lib) (annotation a),
                       p_default = None\<rparr>) (args (f_args h));
          dflts = defaults (f_args h)
      in case (if dflts \<noteq> []
               then set_defaults (unparse lib)
                      (int (length parameters0) - int (length dflts))
                      (enumerate_list dflts) parameters0
               else Inr parameters0) of
           Inl e \<Rightarrow> Inl e
         | Inr parameters \<Rightarrow>
             (let return_type = map_option (unparse lib) (f_returns h);
                  sig = ''def '' @ f_name h @ ''('' @ join '', '' (map param_str parameters) @ '')''
                        @ (if truthy return_type then '' -> '' @ opt_str return_type else [])
              in Inr \<lparr>fi_name = f_name h,
                      fi_start_line = f_lineno h,
                      fi_end_line = f_end_lineno h,
                      fi_signature = sig,
                      fi_parameters = parameters,
                      fi_return_type = return_type,
                      fi_body = join [CHR 0x0A]
                                  (py_slice lines (int (f_lineno h) - 1) (int (f_end_lineno h))),
                      fi_decorators = map (unparse lib) (f_decorator_list h),
                      fi_docstring = get_docstring lib fbody,
                      fi_is_async = is_async,
                      fi_is_method = (cname \<noteq> None),
                      fi_class_name = cname\<rparr>))"

text \<open>The loop of \<open>_extract_python_class\<close> that collects the methods; it ends at the first
  exception.\<close>

fun extract_methods ::
  "ast_lib \<Rightarrow> string list \<Rightarrow> string \<Rightarrow> stmt list \<Rightarrow> FunctionInfo list
     \<Rightarrow> py_exception + FunctionInfo list"
where
  "extract_methods lib lines cname [] methods = Inr methods"
| "extract_methods lib lines cname (item # rest) methods =
     (case item of
        FunctionDef h b \<Rightarrow>
          (case extract_python_function lib False h b lines (Some cname) of
             Inl e \<Rightarrow> Inl e
           | Inr m \<Rightarrow> extract_methods lib lines cname rest (methods @ [m]))
      | AsyncFunctionDef h b \<Rightarrow>
          (case extract_python_function lib True h b lines (Some cname) of
             Inl e \<Rightarrow> Inl e
           | Inr m \<Rightarrow> extract_methods lib lines cname rest (methods @ [m]))
      | _ \<Rightarrow> extract_methods lib lines cname rest methods)"

definition class_attributes :: "ast_lib \<Rightarrow> stmt list \<Rightarrow> Attribute list" where
  "class_attributes lib cbody =
     concat (map (\<lambda>item.
        case item of
          AnnAssign (Name x) ann v l \<Rightarrow>
            [\<lparr>at_name = x, at_type = Some (unparse lib ann), at_line = l\<rparr>]
        | _ \<Rightarrow> []) cbody)"

definition extract_python_class ::
  "ast_lib \<Rightarrow> classdef \<Rightarrow> stmt list \<Rightarrow> string list \<Rightarrow> py_exception + ClassInfo"
where
  "extract_python_class lib h cbody lines =
     (case extract_methods lib lines (c_name h) cbody [] of
        Inl e \<Rightarrow> Inl e
      | Inr methods \<Rightarrow>
          Inr \<lparr>ci_name = c_name h,
               ci_start_line = c_lineno h,
               ci_end_line = c_end_lineno h,
               ci_bases = map (unparse lib) (c_bases h),
               ci_methods = methods,
               ci_attributes = class_attributes lib cbody,
               ci_docstring = get_docstring lib cbody,
               ci_decorators = map (unparse lib) (c_decorator_list h)\<rparr>)"

text \<open>\<open>_calculate_complexity\<close>: one step of the loop over \<open>ast.walk(tree)\<close>, and the loop.\<close>

fun complexity_step :: "int \<Rightarrow> node \<Rightarrow> int" where
  "complexity_step c (Stmt (If_stmt test body orelse)) = c + 1"
| "complexity_step c (Stmt (While test body orelse)) = c + 1"
| "complexity_step c (Stmt (For target iter body orelse)) = c + 1"
| "complexity_step c (ExceptHandler t body) = c + 1"
| "complexity_step c (Expr (BoolOp op a b rest)) = c + (int (length (a # b # rest)) - 1)"
| "complexity_step c (Boolop And) = c + 1"
| "complexity_step c (Boolop Or) = c + 1"
| "complexity_step c n = c"

definition calculate_complexity :: "stmt list \<Rightarrow> int" where
  "calculate_complexity tree = min 100 (foldl complexity_step 1 (walk (Module tree)) * 5)"

text \<open>The first loop of \<open>_parse_python\<close>: the names a node imports.\<close>

fun import_names :: "node \<Rightarrow> string list" where
  "import_names (Stmt (Import names)) = names"
| "import_names (Stmt (ImportFrom modname names)) =
     map (\<lambda>a. opt_str modname @ ''.'' @ a) names"
| "import_names n = []"

text \<open>The second loop of \<open>_parse_python\<close>, over the top-level nodes: the functions, classes
  and global variables so far, and the exception that ended the loop, if one did.\<close>

fun top_level ::
  "ast_lib \<Rightarrow> string list \<Rightarrow> stmt list
     \<Rightarrow> FunctionInfo list \<times> ClassInfo list \<times> GlobalVar list
     \<Rightarrow> (FunctionInfo list \<times> ClassInfo list \<times> GlobalVar list) \<times> py_exception option"
where
  "top_level lib lines [] acc = (acc, None)"
| "top_level lib lines (n # rest) (functions, classes, global_vars) =
     (case n of
        FunctionDef h b \<Rightarrow>
          (case extract_python_function lib False h b lines None of
             Inl e \<Rightarrow> ((functions, classes, global_vars), Some e)
           | Inr f \<Rightarrow> top_level lib lines rest (functions @ [f], classes, global_vars))
      | AsyncFunctionDef h b \<Rightarrow>
          (case extract_python_function lib True h b lines None of
             Inl e \<Rightarrow> ((functions, classes, global_vars), Some e)
           | Inr f \<Rightarrow> top_level lib lines rest (functions @ [f], classes, global_vars))
      | ClassDef h b \<Rightarrow>
          (case extract_python_class lib h b lines of
             Inl e \<Rightarrow> ((functions, classes, global_vars), Some e)
           | Inr c \<Rightarrow> top_level lib lines rest (functions, classes @ [c], global_vars))
      | Assign targets v l \<Rightarrow>
          top_level lib lines rest
            (functions, classes,
             global_vars @ concat (map (\<lambda>target.
                case target of
                  Name x \<Rightarrow> [\<lparr>gv_name = x, gv_line = l, gv_value = unparse lib v\<rparr>]
                | _ \<Rightarrow> []) targets))
      | _ \<Rightarrow> top_level lib lines rest (functions, classes, global_vars))"

definition str_lineno :: "nat option \<Rightarrow> string" where
  "str_lineno l = (case l of None \<Rightarrow> ''None'' | Some n \<Rightarrow> str_nat n)"

text \<open>The two handlers of \<open>_parse_python\<close>: the text appended to \<open>errors\<close>.\<close>

definition handler_message :: "py_exception \<Rightarrow> string" where
  "handler_message e =
     (case e of
        SyntaxError l msg \<Rightarrow> ''Syntax error at line '' @ str_lineno l @ '': '' @ msg
      | _ \<Rightarrow> ''Parse error: '' @ exception_str e)"

definition parse_python :: "ast_lib \<Rightarrow> string \<Rightarrow> ParseResult" where
  "parse_python lib code =
     (case ast_parse lib code of
        Inl e \<Rightarrow>
          \<lparr>pr_language = ''python'', pr_functions = [], pr_classes = [], pr_imports = [],
            pr_global_variables = [], pr_errors = [handler_message e],
            pr_complexity_score = 0\<rparr>
      | Inr tree \<Rightarrow>
          (let lines = split_char CHR 0x0A code;
               imports = concat (map import_names (walk (Module tree)))
           in case top_level lib lines tree ([], [], []) of
                ((functions, classes, global_vars), None) \<Rightarrow>
                  \<lparr>pr_language = ''python'', pr_functions = functions, pr_classes = classes,
                    pr_imports = imports, pr_global_variables = global_vars,
                    pr_errors = [],
                    pr_complexity_score = calculate_complexity tree\<rparr>
              | ((functions, classes, global_vars), Some e) \<Rightarrow>
                  \<lparr>pr_language = ''python'', pr_functions = functions, pr_classes = classes,
                    pr_imports = imports, pr_global_variables = global_vars,
                    pr_errors = [handler_message e],
                    pr_complexity_score = 0\<rparr>))"

subsection \<open>The regex extractors\<close>

definition js_import_pattern :: string where
  \<open>js_import_pattern =
     ''import'' @ bs @ ''s+(?:{[^}]+}|'' @ bs @ ''*'' @ bs @ ''s+as'' @ bs @ ''s+'' @ bs @
       ''w+|'' @ bs @ ''w+)'' @ bs @ ''s+from'' @ bs @ ''s+['' @ sq @ bs @ dq @ '']([^'' @
       sq @ bs @ dq @ '']+)['' @ sq @ bs @ dq @ '']''\<close>

definition js_func_pattern_1 :: string where
  \<open>js_func_pattern_1 =
     ''(?:async'' @ bs @ ''s+)?function'' @ bs @ ''s+('' @ bs @ ''w+)'' @ bs @ ''s*'' @
       bs @ ''(([^)]*)'' @ bs @ '')'' @ bs @ ''s*(?::'' @ bs @ ''s*('' @ bs @ ''w+))?'' @
       bs @ ''s*{''\<close>

definition js_func_pattern_2 :: string where
  \<open>js_func_pattern_2 =
     ''(?:const|let|var)'' @ bs @ ''s+('' @ bs @ ''w+)'' @ bs @ ''s*='' @ bs @
       ''s*(?:async'' @ bs @ ''s+)?'' @ bs @ ''([^)]*'' @ bs @ '')'' @ bs @ ''s*(?::'' @
       bs @ ''s*('' @ bs @ ''w+))?'' @ bs @ ''s*=>'' @ bs @ ''s*{?''\<close>

definition js_func_pattern_3 :: string where
  \<open>js_func_pattern_3 =
     ''(?:const|let|var)'' @ bs @ ''s+('' @ bs @ ''w+)'' @ bs @ ''s*='' @ bs @
       ''s*(?:async'' @ bs @ ''s+)?function'' @ bs @ ''s*'' @ bs @ ''([^)]*'' @ bs @ '')''\<close>

definition js_class_pattern :: string where
  \<open>js_class_pattern =
     ''class'' @ bs @ ''s+('' @ bs @ ''w+)(?:'' @ bs @ ''s+extends'' @ bs @ ''s+('' @ bs @
       ''w+))?'' @ bs @ ''s*{''\<close>

definition java_import_pattern :: string where
  \<open>java_import_pattern =
     ''import'' @ bs @ ''s+(['' @ bs @ ''w.]+);''\<close>

definition java_class_pattern :: string where
  \<open>java_class_pattern =
     ''(?:public'' @ bs @ ''s+)?(?:abstract'' @ bs @ ''s+)?class'' @ bs @ ''s+('' @ bs @
       ''w+)(?:'' @ bs @ ''s+extends'' @ bs @ ''s+('' @ bs @ ''w+))?(?:'' @ bs @
       ''s+implements'' @ bs @ ''s+(['' @ bs @ ''w,'' @ bs @ ''s]+))?'' @ bs @ ''s*{''\<close>

definition java_method_pattern :: string where
  \<open>java_method_pattern =
     ''(?:public|private|protected)?'' @ bs @ ''s*(?:static'' @ bs @ ''s+)?(?:final'' @
       bs @ ''s+)?('' @ bs @ ''w+(?:<[^>]+>)?)'' @ bs @ ''s+('' @ bs @ ''w+)'' @ bs @
       ''s*'' @ bs @ ''(([^)]*)'' @ bs @ '')'' @ bs @ ''s*(?:throws'' @ bs @ ''s+['' @ bs @
       ''w,'' @ bs @ ''s]+)?'' @ bs @ ''s*{''\<close>

abbreviation nl :: string where "nl \<equiv> [CHR 0x0A]"

text \<open>\<open>sub in s\<close>.\<close>

definition contains :: "string \<Rightarrow> string \<Rightarrow> bool" where
  "contains s sub = list_ex (\<lambda>i. take (length sub) (drop i s) = sub) [0..<length s + 1]"

text \<open>The loop of \<open>_find_matching_brace\<close> from index \<open>i\<close> on: the index of the brace that
  brings the counter back to zero, if there is one.\<close>

fun matching_brace :: "string \<Rightarrow> nat \<Rightarrow> int \<Rightarrow> nat option" where
  "matching_brace [] i count = None"
| "matching_brace (ch # rest) i count =
     (if ch = CHR ''{'' then matching_brace rest (i + 1) (count + 1)
      else if ch = CHR ''}''
           then (if count - 1 = 0 then Some i else matching_brace rest (i + 1) (count - 1))
      else matching_brace rest (i + 1) count)"

definition find_matching_brace :: "string \<Rightarrow> nat \<Rightarrow> string \<times> nat" where
  "find_matching_brace code start =
     (case matching_brace (drop start code) start 0 of
        Some i \<Rightarrow> (take (i + 1 - start) (drop start code), i)
      | None \<Rightarrow> (drop start code, length code))"

text \<open>\<open>_estimate_complexity\<close>.\<close>

definition control_keywords :: "string list" where
  "control_keywords = [''if'', ''else'', ''for'', ''while'', ''switch'', ''case'', ''try'', ''catch'',
               ''&&'', ''||'', ''?'']"

definition estimate_complexity :: "string \<Rightarrow> int" where
  "estimate_complexity code =
     min 100 (foldl (\<lambda>complexity kw. complexity + int (str_count code kw)) 1 control_keywords * 2)"

text \<open>The body of the loop over the matches of a function pattern in
  \<open>_parse_javascript\<close>.\<close>

definition js_function :: "string \<Rightarrow> re_match \<Rightarrow> FunctionInfo" where
  "js_function code m =
     (let line_num = str_count (take (m_start m) code) nl + 1;
          (body, end_line) =
            (case str_find code CHR ''{'' (m_start m) of
               Some body_start \<Rightarrow>
                 (let (body, end_idx) = find_matching_brace code body_start
                  in (body, str_count (take end_idx code) nl + 1))
             | None \<Rightarrow> ([], line_num))
      in \<lparr>fi_name = group_str m 1,
          fi_start_line = line_num,
          fi_end_line = end_line,
          fi_signature = group_str m 0,
          fi_parameters = [],
          fi_return_type = None,
          fi_body = body,
          fi_decorators = [],
          fi_docstring = None,
          fi_is_async = contains (group_str m 0) ''async'',
          fi_is_method = False,
          fi_class_name = None\<rparr>)"

definition js_class :: "string \<Rightarrow> re_match \<Rightarrow> ClassInfo" where
  "js_class code m =
     (let line_num = str_count (take (m_start m) code) nl + 1
      in \<lparr>ci_name = group_str m 1,
          ci_start_line = line_num,
          ci_end_line = line_num,
          ci_bases = (if truthy (group m 2) then [opt_str (group m 2)] else []),
          ci_methods = [],
          ci_attributes = [],
          ci_docstring = None,
          ci_decorators = []\<rparr>)"

definition parse_javascript :: "regex \<Rightarrow> string \<Rightarrow> ParseResult" where
  "parse_javascript re code =
     \<lparr>pr_language = ''javascript'',
      pr_functions =
        concat (map (\<lambda>pattern. map (js_function code) (re False pattern code))
                  [js_func_pattern_1, js_func_pattern_2, js_func_pattern_3]),
      pr_classes = map (js_class code) (re False js_class_pattern code),
      pr_imports = map (\<lambda>m. group_str m 1) (re False js_import_pattern code),
      pr_global_variables = [],
      pr_errors = [],
      pr_complexity_score = estimate_complexity code\<rparr>"

text \<open>\<open>s.split()\<close>: the maximal runs of characters that are not whitespace.\<close>

fun split_ws_aux :: "string \<Rightarrow> string \<Rightarrow> string list" where
  "split_ws_aux cur [] = (if cur = [] then [] else [cur])"
| "split_ws_aux cur (x # xs) =
     (if isspace x then (if cur = [] then split_ws_aux [] xs else cur # split_ws_aux [] xs)
      else split_ws_aux (cur @ [x]) xs)"

definition split_ws :: "string \<Rightarrow> string list" where
  "split_ws s = split_ws_aux [] s"

definition java_class :: "string \<Rightarrow> re_match \<Rightarrow> ClassInfo" where
  "java_class code m =
     (let line_num = str_count (take (m_start m) code) nl + 1;
          bases = (if truthy (group m 2) then [opt_str (group m 2)] else [])
                  @ (if truthy (group m 3)
                     then map strip (split_char CHR '','' (opt_str (group m 3)))
                     else [])
      in \<lparr>ci_name = group_str m 1,
          ci_start_line = line_num,
          ci_end_line = line_num,
          ci_bases = bases,
          ci_methods = [],
          ci_attributes = [],
          ci_docstring = None,
          ci_decorators = []\<rparr>)"

definition java_parameters :: "string \<Rightarrow> Param list" where
  "java_parameters params =
     (if strip params \<noteq> []
      then concat (map (\<lambda>param.
             let parts = split_ws (strip param)
             in if length parts \<ge> 2
                then [\<lparr>p_name = last parts, p_type = Some (join '' '' (butlast parts)),
                        p_default = None\<rparr>]
                else []) (split_char CHR '','' params))
      else [])"

text \<open>The body of the loop over the matches of the method pattern in \<open>_parse_java\<close>: no
  function where the loop says \<open>continue\<close>.\<close>

definition java_method :: "string \<Rightarrow> re_match \<Rightarrow> FunctionInfo list" where
  "java_method code m =
     (let return_type = group_str m 1;
          name = group_str m 2;
          params = group_str m 3;
          line_num = str_count (take (m_start m) code) nl + 1
      in if name \<in> set [''if'', ''while'', ''for'', ''switch'', ''try'', ''catch''] then []
         else [\<lparr>fi_name = name,
                 fi_start_line = line_num,
                 fi_end_line = line_num,
                 fi_signature = return_type @ '' '' @ name @ ''('' @ params @ '')'',
                 fi_parameters = java_parameters params,
                 fi_return_type = Some return_type,
                 fi_body = [],
                 fi_decorators = [],
                 fi_docstring = None,
                 fi_is_async = False,
                 fi_is_method = False,
                 fi_class_name = None\<rparr>])"

definition parse_java :: "regex \<Rightarrow> string \<Rightarrow> ParseResult" where
  "parse_java re code =
     \<lparr>pr_language = ''java'',
      pr_functions = concat (map (java_method code) (re False java_method_pattern code)),
      pr_classes = map (java_class code) (re False java_class_pattern code),
      pr_imports = map (\<lambda>m. group_str m 1) (re False java_import_pattern code),
      pr_global_variables = [],
      pr_errors = [],
      pr_complexity_score = estimate_complexity code\<rparr>"

definition parse_generic :: "string \<Rightarrow> string \<Rightarrow> ParseResult" where
  "parse_generic code lang =
     \<lparr>pr_language = lang,
      pr_functions = [],
      pr_classes = [],
      pr_imports = [],
      pr_global_variables = [],
      pr_errors = [''No specific parser for '' @ lang @ '', using generic analysis''],
      pr_complexity_score = estimate_complexity code\<rparr>"

text \<open>The dictionary \<open>self.parsers\<close> and \<open>parse\<close>.\<close>

definition parsers :: "ast_lib \<Rightarrow> regex \<Rightarrow> (string \<times> (string \<Rightarrow> ParseResult)) list" where
  "parsers lib re =
     [(''python'', parse_python lib),
      (''javascript'', parse_javascript re),
      (''typescript'', parse_javascript re),
      (''java'', parse_java re)]"

definition parse :: "ast_lib \<Rightarrow> regex \<Rightarrow> string \<Rightarrow> string \<Rightarrow> ParseResult" where
  "parse lib re code lang =
     (let lang = lower lang
      in case map_of (parsers lib re) lang of
           Some parser \<Rightarrow> parser code
         | None \<Rightarrow> parse_generic code lang)"

subsection \<open>Metrics\<close>





section \<open>The specification's formulas\<close>






section \<open>Concrete collaborators for closed examples\<close>

text \<open>A regex engine that finds nothing, and a trained classifier whose forest answers
  0.999 for class 1 on every text.\<close>

definition no_match :: regex where
  "no_match ignorecase pattern text = []"

definition sure_classifier :: DefectClassifier where
  "sure_classifier = \<lparr>is_trained = True, predict_proba = (\<lambda>code. Some [1 / 1000, 999 / 1000])\<rparr>"

definition untrained_classifier :: DefectClassifier where
  "untrained_classifier = \<lparr>is_trained = False, predict_proba = (\<lambda>code. None)\<rparr>"

text \<open>
  A stand-in for the \<open>ast\<close> module on four texts: the tree of \<open>x = a and b\<close>, the syntax
  error of \<open>def f(:\<close>, and the tree of a class with one method next to one function,
  once as the parser positions them and once more below; every other text parses to the
  empty module. Names unparse to themselves.
\<close>

definition example_arguments :: "string list \<Rightarrow> arguments" where
  "example_arguments names =
     \<lparr>posonlyargs = [], args = map (\<lambda>x. \<lparr>arg_name = x, annotation = None\<rparr>) names,
      vararg = None, kwonlyargs = [], kw_defaults = [], kwarg = None, defaults = []\<rparr>"

definition example_module :: "stmt list" where
  "example_module =
     [ClassDef \<lparr>c_name = ''A'', c_bases = [], c_keywords = [], c_decorator_list = [],
                c_lineno = 1, c_end_lineno = 3\<rparr>
        [FunctionDef \<lparr>f_name = ''m'', f_args = example_arguments [''self'', ''x''],
                      f_decorator_list = [], f_returns = None,
                      f_lineno = 2, f_end_lineno = 3\<rparr>
           [OtherStmt [Name ''x''] []]],
      FunctionDef \<lparr>f_name = ''g'', f_args = example_arguments [''y'', ''z''],
                    f_decorator_list = [], f_returns = None,
                    f_lineno = 4, f_end_lineno = 5\<rparr>
        [OtherStmt [Name ''y''] []]]"

definition example_source :: string where
  "example_source =
     ''class A:'' @ nl @ ''  def m(self, x):'' @ nl @ ''    return x'' @ nl
       @ ''def g(y, z):'' @ nl @ ''  return y''"

definition example_parse :: "string \<Rightarrow> py_exception + stmt list" where
  "example_parse code =
     (if code = ''def f(:'' then Inl (SyntaxError (Some 1) ''invalid syntax'')
      else if code = ''x = a and b''
           then Inr [Assign [Name ''x''] (BoolOp And (Name ''a'') (Name ''b'') []) 1]
      else if code = example_source then Inr example_module
      else Inr [])"

definition example_unparse :: "expr \<Rightarrow> string" where
  "example_unparse e = (case e of Name x \<Rightarrow> x | _ \<Rightarrow> ''...'')"

definition example_lib :: ast_lib where
  "example_lib =
     \<lparr>ast_parse = example_parse, unparse = example_unparse, get_docstring = (\<lambda>body. None)\<rparr>"






section \<open>Adding a conditional\<close>




section \<open>Entities and the nodes they come from\<close>






section \<open>Score fusion\<close>




















section \<open>The classifier step\<close>

lemma confidence_analyze:
  "confidence (analyze re clf code lang) = (if is_trained clf then 8 / 10 else 5 / 10)"
  by (simp add: analyze_def fuse_def Let_def)

text \<open>
  C7. The classifier step is a total function of the component's state and the code: it
  has no exceptional result. Untrained, it returns 0.5 and the prediction's confidence
  is 0.5. Trained, it returns the probability the model gives class 1 and the confidence
  is 0.8; where the vectorizer or the model raises, the handler returns 0.5.
\<close>

theorem ml_classify_degrades:
  "(\<not> is_trained clf \<longrightarrow>
      ml_classify clf code = 5 / 10 \<and> confidence (analyze re clf code lang) = 5 / 10)
   \<and> (is_trained clf \<longrightarrow> confidence (analyze re clf code lang) = 8 / 10)
   \<and> (is_trained clf \<and> predict_proba clf code = Some [p0, p1] \<longrightarrow> ml_classify clf code = p1)
   \<and> (is_trained clf \<and> predict_proba clf code = None \<longrightarrow> ml_classify clf code = 5 / 10)"
  by (simp add: ml_classify_def confidence_analyze)

theorem ml_classify_degrades_witness:
  "ml_classify untrained_classifier ''eval(x)'' = 5 / 10
   \<and> confidence (analyze no_match untrained_classifier ''eval(x)'' ''python'') = 5 / 10
   \<and> ml_classify sure_classifier ''eval(x)'' = 999 / 1000
   \<and> confidence (analyze no_match sure_classifier ''eval(x)'' ''python'') = 8 / 10"
proof -
  have u: "\<not> is_trained untrained_classifier"
    by (simp add: untrained_classifier_def)
  have t: "is_trained sure_classifier
           \<and> predict_proba sure_classifier ''eval(x)'' = Some [1 / 1000, 999 / 1000]"
    by (simp add: sure_classifier_def)
  from u ml_classify_degrades [of untrained_classifier "''eval(x)''" no_match "''python''"]
  have "ml_classify untrained_classifier ''eval(x)'' = 5 / 10
        \<and> confidence (analyze no_match untrained_classifier ''eval(x)'' ''python'') = 5 / 10"
    by blast
  moreover from t
    ml_classify_degrades [of sure_classifier "''eval(x)''" no_match "''python''"
      "1 / 1000" "999 / 1000"]
  have "ml_classify sure_classifier ''eval(x)'' = 999 / 1000
        \<and> confidence (analyze no_match sure_classifier ''eval(x)'' ''python'') = 8 / 10"
    by blast
  ultimately show ?thesis by blast
qed

section \<open>Dispatch\<close>







section \<open>Unsupported languages\<close>





section \<open>Syntax errors\<close>

text \<open>
  C9. When \<open>ast.parse\<close> raises a \<open>SyntaxError\<close> on a Python input, \<open>parse\<close> returns a
  result: its error sequence is the one string \<open>Syntax error at line {lineno}: {msg}\<close>,
  its complexity score is 0 and it has no function, class, import or global variable.
  Any other exception of \<open>ast.parse\<close> is caught as well, with the same empty result and
  the string \<open>Parse error: {text}\<close>.
\<close>

theorem parse_python_syntax_error:
  assumes "lower lang = ''python''"
  shows "(ast_parse lib code = Inl (SyntaxError l msg) \<longrightarrow>
            parse lib re code lang
            = \<lparr>pr_language = ''python'', pr_functions = [], pr_classes = [], pr_imports = [],
                pr_global_variables = [],
                pr_errors = [''Syntax error at line '' @ str_lineno l @ '': '' @ msg],
                pr_complexity_score = 0\<rparr>)
       \<and> (ast_parse lib code = Inl e \<longrightarrow>
            pr_functions (parse lib re code lang) = []
            \<and> pr_classes (parse lib re code lang) = []
            \<and> length (pr_errors (parse lib re code lang)) = 1
            \<and> pr_complexity_score (parse lib re code lang) = 0)"
  using assms
  by (simp add: parse_def parsers_def parse_python_def handler_message_def)

theorem parse_python_syntax_error_witness:
  "parse example_lib no_match ''def f(:'' ''Python''
   = \<lparr>pr_language = ''python'', pr_functions = [], pr_classes = [], pr_imports = [],
       pr_global_variables = [],
       pr_errors = [''Syntax error at line 1: invalid syntax''],
       pr_complexity_score = 0\<rparr>"
proof -
  have l: "lower ''Python'' = ''python''"
    by (simp add: lower_def lower_char_def)
  have e: "ast_parse example_lib ''def f(:'' = Inl (SyntaxError (Some 1) ''invalid syntax'')"
    by (simp add: example_lib_def example_parse_def)
  have n: "str_nat (Suc 0) = ''1''"
    by (subst str_nat.simps) simp
  from e parse_python_syntax_error [OF l, of example_lib "''def f(:''" "Some 1" "''invalid syntax''"
         no_match]
  show ?thesis by (simp add: str_lineno_def n)
qed

section \<open>Line metrics\<close>





section \<open>Tree-walk complexity\<close>


























section \<open>Keyword counts under insertion\<close>




















section \<open>One more conditional in the tree\<close>







section \<open>Entities of the regex extractors\<close>











section \<open>Entities of the Python extractor\<close>




















section \<open>Invariants of the entities\<close>






section \<open>A definition whose extraction raises\<close>

text \<open>
  The defaults of \<open>def f(a=1, b=2, /, c=3)\<close> belong to the positional-only parameters as
  well, which \<open>args.args\<close> does not hold: the offset is negative, the index is out of
  range, and \<open>_parse_python\<close> records the error, forces the score to 0 and keeps only
  what it had extracted before.
\<close>

lemma posonly_defaults_raise:
  "extract_python_function example_lib False
     \<lparr>f_name = ''f'',
      f_args = \<lparr>posonlyargs = [\<lparr>arg_name = ''a'', annotation = None\<rparr>,
                                \<lparr>arg_name = ''b'', annotation = None\<rparr>],
                args = [\<lparr>arg_name = ''c'', annotation = None\<rparr>],
                vararg = None, kwonlyargs = [], kw_defaults = [], kwarg = None,
                defaults = [OtherExpr [], OtherExpr [], OtherExpr []]\<rparr>,
      f_decorator_list = [], f_returns = None, f_lineno = 1, f_end_lineno = 1\<rparr>
     [OtherStmt [] []] [''def f(a=1, b=2, /, c=3): pass''] None
   = Inl IndexError"
  by code_simp


end
